theory Spec2Isabelle
  imports Complex_Main
begin

section \<open>Numbers, vectors and the body catalog\<close>

text \<open>
  JavaScript numbers are modelled as \<^typ>\<open>real\<close>: the development verifies the
  branching, the stored state and the exact arithmetic of the formulas, not IEEE-754
  rounding or NaN. Timestamps of \<^verbatim>\<open>Date.now()\<close> are integers (milliseconds).
\<close>

text \<open>\<^verbatim>\<open>THREE.Vector3\<close> with the three operations the controller calls.\<close>

datatype Vector3 = Vector3 (vx: real) (vy: real) (vz: real)

definition lerp :: "Vector3 \<Rightarrow> Vector3 \<Rightarrow> real \<Rightarrow> Vector3" where
  \<comment> \<open>\<^verbatim>\<open>this.x += (v.x - this.x) * alpha\<close>, likewise y and z\<close>
  "lerp p v alpha =
     Vector3 (vx p + (vx v - vx p) * alpha)
             (vy p + (vy v - vy p) * alpha)
             (vz p + (vz v - vz p) * alpha)"

definition multiplyScalar :: "Vector3 \<Rightarrow> real \<Rightarrow> Vector3" where
  "multiplyScalar p s = Vector3 (vx p * s) (vy p * s) (vz p * s)"

definition vlength :: "Vector3 \<Rightarrow> real" where
  "vlength p = sqrt (vx p * vx p + vy p * vy p + vz p * vz p)"

definition normalize :: "Vector3 \<Rightarrow> Vector3" where
  \<comment> \<open>\<^verbatim>\<open>divideScalar(this.length() || 1)\<close>: the zero vector stays zero\<close>
  "normalize p = multiplyScalar p (1 / (if vlength p = 0 then 1 else vlength p))"

text \<open>\<^verbatim>\<open>ControlMode\<close>; the components compare against \<^verbatim>\<open>ControlMode.HAND\<close> as well.\<close>

datatype ControlMode = MOUSE | KEYBOARD | AUTO | HAND

record PlanetData =
  id' :: string
  name :: string
  radius :: real
  distance :: real
  speed :: real
  rotationSpeed :: real
  color :: string
  moons :: "nat option"
  hasRings :: "bool option"

text \<open>The catalog \<^verbatim>\<open>PLANET_DATA\<close> of constants.ts (the \<^verbatim>\<open>details\<close> prose is left out).\<close>

definition PLANET_DATA :: "PlanetData list" where
  "PLANET_DATA =
   [\<lparr>id' = ''sun'', name = ''Sun'', radius = 12, distance = 0, speed = 0,
      rotationSpeed = 0.005, color = ''#ffaa00'', moons = Some 0, hasRings = None\<rparr>,
    \<lparr>id' = ''mercury'', name = ''Mercury'', radius = 1.5, distance = 35, speed = 1.5,
      rotationSpeed = 0.01, color = ''#00e0ff'', moons = Some 0, hasRings = None\<rparr>,
    \<lparr>id' = ''venus'', name = ''Venus'', radius = 2.2, distance = 55, speed = 1.2,
      rotationSpeed = 0.008, color = ''#ff00ff'', moons = Some 0, hasRings = None\<rparr>,
    \<lparr>id' = ''earth'', name = ''Earth'', radius = 2.4, distance = 75, speed = 1.0,
      rotationSpeed = 0.02, color = ''#00ff41'', moons = Some 1, hasRings = None\<rparr>,
    \<lparr>id' = ''mars'', name = ''Mars'', radius = 1.8, distance = 95, speed = 0.8,
      rotationSpeed = 0.018, color = ''#ff3333'', moons = Some 2, hasRings = None\<rparr>,
    \<lparr>id' = ''jupiter'', name = ''Jupiter'', radius = 6.5, distance = 150, speed = 0.4,
      rotationSpeed = 0.04, color = ''#bf00ff'', moons = Some 95, hasRings = None\<rparr>,
    \<lparr>id' = ''saturn'', name = ''Saturn'', radius = 5.5, distance = 200, speed = 0.3,
      rotationSpeed = 0.038, color = ''#ffd700'', moons = Some 146, hasRings = Some True\<rparr>,
    \<lparr>id' = ''uranus'', name = ''Uranus'', radius = 3.5, distance = 250, speed = 0.2,
      rotationSpeed = 0.03, color = ''#00ffff'', moons = Some 27, hasRings = None\<rparr>,
    \<lparr>id' = ''neptune'', name = ''Neptune'', radius = 3.4, distance = 290, speed = 0.15,
      rotationSpeed = 0.032, color = ''#0033ff'', moons = Some 14, hasRings = None\<rparr>]"

text \<open>\<^verbatim>\<open>PLANET_DATA.find(p => p.id === focusedBody)\<close>: the first entry with that id.\<close>

definition find_planet :: "string \<Rightarrow> PlanetData option" where
  "find_planet i = List.find (\<lambda>p. id' p = i) PLANET_DATA"

text \<open>
  The application state handed to the components. \<^verbatim>\<open>focusedBody\<close> is
  \<^verbatim>\<open>string | null\<close> and is tested for truthiness: null and the empty string
  both count as no focus.
\<close>

record AppState =
  controlMode :: ControlMode
  focusedBody :: "string option"
  simulationSpeed :: real

definition truthy :: "string option \<Rightarrow> bool" where
  "truthy f = (case f of None \<Rightarrow> False | Some s \<Rightarrow> s \<noteq> [])"

section \<open>Orbit kinematics\<close>

text \<open>
  The rendering layer: the per-frame callback of \<^verbatim>\<open>Planet\<close>. It writes x and z of
  the planet's group only when the orbital distance is positive, and turns the particle
  shell by \<^verbatim>\<open>rotationSpeed * (simulationSpeed || 1)\<close>.
\<close>

record Planet =
  mesh_position :: Vector3
  particle_rotation_y :: real

definition Planet_init :: Planet where
  \<comment> \<open>a freshly mounted group sits at the origin\<close>
  "Planet_init = \<lparr>mesh_position = Vector3 0 0 0, particle_rotation_y = 0\<rparr>"

definition Planet_useFrame :: "PlanetData \<Rightarrow> real \<Rightarrow> real \<Rightarrow> Planet \<Rightarrow> Planet" where
  "Planet_useFrame data simSpeed elapsed st =
     (let t = elapsed * speed data * simSpeed * 0.2;
          pos = (if distance data > 0
                 then Vector3 (cos t * distance data) (vy (mesh_position st)) (sin t * distance data)
                 else mesh_position st)
      in \<lparr>mesh_position = pos,
          particle_rotation_y = particle_rotation_y st
             + rotationSpeed data * (if simSpeed = 0 then 1 else simSpeed)\<rparr>)"

text \<open>A run of render frames, each with its elapsed time and the speed multiplier then in force.\<close>

fun Planet_frames :: "PlanetData \<Rightarrow> Planet \<Rightarrow> (real \<times> real) list \<Rightarrow> Planet" where
  "Planet_frames data st [] = st"
| "Planet_frames data st ((elapsed, simSpeed) # fs) =
     Planet_frames data (Planet_useFrame data simSpeed elapsed st) fs"

definition xz :: "Vector3 \<Rightarrow> real \<times> real" where
  "xz p = (vx p, vz p)"

text \<open>
  The camera controller's own computation of the focused body's place
  (\<^verbatim>\<open>pX\<close>, \<^verbatim>\<open>pZ\<close> of the focused branch), with no test on the distance.
\<close>

definition focus_orbit :: "PlanetData \<Rightarrow> real \<Rightarrow> real \<Rightarrow> real \<times> real" where
  "focus_orbit planet simSpeed elapsed =
     (let t = elapsed * speed planet * simSpeed * 0.2
      in (cos t * distance planet, sin t * distance planet))"

text \<open>The specification's formula, written from its words, to compare both with.\<close>

definition spec_position :: "PlanetData \<Rightarrow> real \<Rightarrow> real \<Rightarrow> real \<times> real" where
  "spec_position body elapsedTime simulationSpeedMultiplier =
     (let angle = elapsedTime * speed body * simulationSpeedMultiplier * 0.2
      in (cos angle * distance body, sin angle * distance body))"

definition earth :: PlanetData where
  "earth = \<lparr>id' = ''earth'', name = ''Earth'', radius = 2.4, distance = 75, speed = 1.0,
      rotationSpeed = 0.02, color = ''#00ff41'', moons = Some 1, hasRings = None\<rparr>"

section \<open>The gesture classifier\<close>

text \<open>
  \<^verbatim>\<open>HandGesture\<close>: the \<^verbatim>\<open>type\<close> tag with the \<^verbatim>\<open>value\<close> each kind carries
  (deltas for ROTATE, a number for ZOOM, a cursor position for FOCUS).
\<close>

datatype HandGesture =
  NONE | ROTATE real real | ZOOM real | FOCUS real real | EXIT_FOCUS

text \<open>A landmark (only x and y are read) and a hand, the array of its landmarks.\<close>

datatype Landmark = Landmark (lx: real) (ly: real)

type_synonym hand = "Landmark list"

text \<open>The three refs behind the smoothing logic, with their initial values.\<close>

record ClassifierState =
  lastHandPos :: "(real \<times> real) option"
  lastPinchDist :: "real option"
  gestureHoldStart :: int

definition ClassifierState_init :: ClassifierState where
  "ClassifierState_init = \<lparr>lastHandPos = None, lastPinchDist = None, gestureHoldStart = 0\<rparr>"

text \<open>Reading a coordinate of a landmark that the array does not have throws.\<close>

datatype error = TypeError

text \<open>
  \<^verbatim>\<open>processGestures\<close>. The result is the state of the refs afterwards together with
  either the error thrown or the argument of the call of \<^verbatim>\<open>onGesture\<close>, if there
  was one (\<open>None\<close>: the callback was not called in this tick). \<open>now\<close> is the value of
  \<^verbatim>\<open>Date.now()\<close> during the tick. The debug text is not modelled.
\<close>

definition processGestures_single ::
  "int \<Rightarrow> hand list \<Rightarrow> ClassifierState \<Rightarrow> ClassifierState \<times> (error + HandGesture option)" where
  "processGestures_single now landmarksList st =
     (case landmarksList of
        [] \<Rightarrow> (st, Inl TypeError)
      | landmarks # _ \<Rightarrow>
          if length landmarks < 21 then (st, Inl TypeError)
          else
            let indexTip = landmarks ! 8;
                wrist = landmarks ! 0;
                indexExt = ly (landmarks ! 8) < ly (landmarks ! 6);
                middleExt = ly (landmarks ! 12) < ly (landmarks ! 10);
                ringExt = ly (landmarks ! 16) < ly (landmarks ! 14);
                pinkyExt = ly (landmarks ! 20) < ly (landmarks ! 18);
                isVictory = (indexExt \<and> middleExt \<and> \<not> ringExt \<and> \<not> pinkyExt);
                isPalmOpen = (indexExt \<and> middleExt \<and> ringExt \<and> pinkyExt);
                isPointing = (indexExt \<and> \<not> middleExt \<and> \<not> ringExt \<and> \<not> pinkyExt)
            in
              if isVictory then
                (st\<lparr>lastHandPos := Some (lx wrist, ly wrist)\<rparr>,
                 Inr (case lastHandPos st of
                        None \<Rightarrow> None
                      | Some (lastX, lastY) \<Rightarrow>
                          let deltaX = lx wrist - lastX; deltaY = ly wrist - lastY
                          in if \<bar>deltaX\<bar> > 0.002 \<or> \<bar>deltaY\<bar> > 0.002
                             then Some (ROTATE deltaX deltaY) else None))
              else if isPalmOpen \<and> now - gestureHoldStart st > 1000 then
                (st\<lparr>gestureHoldStart := now\<rparr>, Inr (Some EXIT_FOCUS))
              else
                let st1 = (if isPalmOpen then st else st\<lparr>gestureHoldStart := now\<rparr>)
                in if isPointing then
                     (st1\<lparr>lastHandPos := Some (lx wrist, ly wrist)\<rparr>,
                      Inr (Some (FOCUS (1 - lx indexTip) (ly indexTip))))
                   else (st1\<lparr>lastHandPos := Some (lx wrist, ly wrist)\<rparr>, Inr None))"

definition processGestures ::
  "int \<Rightarrow> hand list \<Rightarrow> ClassifierState \<Rightarrow> ClassifierState \<times> (error + HandGesture option)" where
  "processGestures now landmarksList st =
     (if length landmarksList = 2 then
        (if landmarksList ! 0 = [] \<or> landmarksList ! 1 = [] then (st, Inl TypeError)
         else
           let hand1 = landmarksList ! 0 ! 0;
               hand2 = landmarksList ! 1 ! 0;
               dist = sqrt ((lx hand1 - lx hand2)\<^sup>2 + (ly hand1 - ly hand2)\<^sup>2)
           in (st\<lparr>lastPinchDist := Some dist, lastHandPos := None\<rparr>,
               Inr (case lastPinchDist st of
                      None \<Rightarrow> None
                    | Some lastDist \<Rightarrow>
                        let delta = dist - lastDist
                        in if \<bar>delta\<bar> > 0.005 then Some (ZOOM (delta * 20)) else None)))
      else processGestures_single now landmarksList (st\<lparr>lastPinchDist := None\<rparr>))"

text \<open>
  \<^verbatim>\<open>predictWebcam\<close>, one video sample. \<open>ready\<close> says that the landmarker and the
  video element exist; \<open>landmarks\<close> is what the detector returned (empty when it found
  no hand).
\<close>

definition predictWebcam ::
  "bool \<Rightarrow> int \<Rightarrow> hand list \<Rightarrow> ClassifierState \<Rightarrow> ClassifierState \<times> (error + HandGesture option)" where
  "predictWebcam ready now landmarks st =
     (if \<not> ready then (st, Inr None)
      else if length landmarks > 0 then processGestures now landmarks st
      else (st\<lparr>lastHandPos := None, lastPinchDist := None\<rparr>, Inr (Some NONE)))"

text \<open>
  The sample loop: each sample is classified in turn, and the next one is requested only
  after the callback returned; a throw ends the loop. The result lists the gestures
  handed to \<^verbatim>\<open>onGesture\<close>, each with the time of its sample.
\<close>

fun webcam_loop :: "ClassifierState \<Rightarrow> (int \<times> hand list) list \<Rightarrow> (int \<times> HandGesture) list" where
  "webcam_loop st [] = []"
| "webcam_loop st ((now, landmarks) # samples) =
     (case predictWebcam True now landmarks st of
        (st', Inl e) \<Rightarrow> []
      | (st', Inr None) \<Rightarrow> webcam_loop st' samples
      | (st', Inr (Some g)) \<Rightarrow> (now, g) # webcam_loop st' samples)"

text \<open>
  Example hands: 21 landmarks with the wrist at the given place, every joint at the
  wrist's height except the four fingertips (8, 12, 16, 20), which lie above their
  joints (6, 10, 14, 18) exactly when the finger is said to be extended.
\<close>

definition example_hand :: "real \<Rightarrow> real \<Rightarrow> bool \<Rightarrow> bool \<Rightarrow> bool \<Rightarrow> bool \<Rightarrow> hand" where
  "example_hand wx wy i m r p =
     (let j = Landmark wx wy;
          tip = (\<lambda>ext. Landmark wx (if ext then wy - 0.1 else wy + 0.1))
      in [j, j, j, j, j, j, j, j, tip i, j, j, j, tip m, j, j, j, tip r, j, j, j, tip p])"

definition open_palm :: hand where
  "open_palm = example_hand 0.5 0.5 True True True True"

definition fist :: hand where
  "fist = example_hand 0.5 0.5 False False False False"

definition victory :: hand where
  "victory = example_hand 0.5 0.5 True True False False"

text \<open>The pose tests of the single-hand branch, as predicates on a hand of 21 landmarks.\<close>

definition isPalmOpen :: "hand \<Rightarrow> bool" where
  "isPalmOpen landmarks =
     (ly (landmarks ! 8) < ly (landmarks ! 6) \<and> ly (landmarks ! 12) < ly (landmarks ! 10)
      \<and> ly (landmarks ! 16) < ly (landmarks ! 14) \<and> ly (landmarks ! 20) < ly (landmarks ! 18))"

definition isVictory :: "hand \<Rightarrow> bool" where
  "isVictory landmarks =
     (ly (landmarks ! 8) < ly (landmarks ! 6) \<and> ly (landmarks ! 12) < ly (landmarks ! 10)
      \<and> \<not> ly (landmarks ! 16) < ly (landmarks ! 14) \<and> \<not> ly (landmarks ! 20) < ly (landmarks ! 18))"

text \<open>The distance between the wrists (landmark 0) of two hands, as the zoom branch computes it.\<close>

definition wrist_distance :: "hand \<Rightarrow> hand \<Rightarrow> real" where
  "wrist_distance hand1 hand2 =
     sqrt ((lx (hand1 ! 0) - lx (hand2 ! 0))\<^sup>2 + (ly (hand1 ! 0) - ly (hand2 ! 0))\<^sup>2)"

definition hand_at :: "real \<Rightarrow> hand" where
  \<comment> \<open>a closed hand whose wrist is at height 0.5 and the given x\<close>
  "hand_at wx = example_hand wx 0.5 False False False False"

section \<open>The camera controller\<close>

text \<open>
  The camera: its position and the point \<^verbatim>\<open>camera.lookAt\<close> last turned it to.
  The orbit controls object: its look-at target and its \<^verbatim>\<open>enabled\<close> flag.
\<close>

record Camera =
  position :: Vector3
  lookedAt :: Vector3

record OrbitControls =
  target :: Vector3
  enabled :: bool

text \<open>The props the component passes to \<^verbatim>\<open><OrbitControls>\<close>.\<close>

record OrbitControlsProps =
  enableDamping :: bool
  dampingFactor :: real
  enabled_prop :: bool
  maxDistance :: real
  minDistance :: real

definition OrbitControls_props :: "AppState \<Rightarrow> OrbitControlsProps" where
  "OrbitControls_props appState =
     \<lparr>enableDamping = True, dampingFactor = 0.05,
      enabled_prop = (controlMode appState = MOUSE),
      maxDistance = 650, minDistance = 10\<rparr>"

text \<open>The ref \<^verbatim>\<open>handState\<close> with its initial value.\<close>

record HandState =
  rotation_x :: real
  rotation_y :: real
  zoom :: real
  cursor :: "real \<times> real"
  isFocusing :: bool

definition HandState_init :: HandState where
  "HandState_init =
     \<lparr>rotation_x = 0, rotation_y = 0, zoom = 300, cursor = (0, 0), isFocusing = False\<rparr>"

text \<open>A call of \<^verbatim>\<open>gsap.to\<close>: the vector it animates, the end value, duration and easing.\<close>

datatype Animated = CameraPosition | ControlsTarget

record Tween =
  animated :: Animated
  to :: Vector3
  duration :: real
  ease :: string

text \<open>
  What the controller component owns: the camera, the ref to the orbit controls
  (\<open>None\<close> while it is not mounted), the autopilot angle, the hand state, and the
  transitions started so far.
\<close>

record CameraController =
  camera :: Camera
  controlsRef :: "OrbitControls option"
  autoOrbitRef :: real
  handState :: HandState
  tweens :: "Tween list"

text \<open>
  \<^verbatim>\<open>controls.update()\<close> belongs to the orbit-controls library. It is a parameter
  of each frame: from the camera and the controls it gives the camera and the target
  afterwards. It is applied only where the source calls it, and it cannot reach the
  \<^verbatim>\<open>enabled\<close> flag or the refs of the component.
\<close>

type_synonym controls_update = "Camera \<Rightarrow> OrbitControls \<Rightarrow> Camera \<times> Vector3"

definition update :: "controls_update \<Rightarrow> CameraController \<Rightarrow> CameraController" where
  \<comment> \<open>\<^verbatim>\<open>if (controlsRef.current) controlsRef.current.update()\<close>\<close>
  "update upd s =
     (case controlsRef s of
        None \<Rightarrow> s
      | Some c \<Rightarrow>
          (case upd (camera s) c of
             (cam, tgt) \<Rightarrow> s\<lparr>camera := cam, controlsRef := Some (c\<lparr>target := tgt\<rparr>)\<rparr>))"

definition no_update :: controls_update where
  \<comment> \<open>an update that finds nothing to do\<close>
  "no_update cam c = (cam, target c)"

text \<open>The autopilot branch of the frame callback.\<close>

definition auto_orbit :: "real \<Rightarrow> CameraController \<Rightarrow> CameraController" where
  "auto_orbit delta s =
     (let angle = autoOrbitRef s + delta * 0.05;
          r = 350;
          x = sin angle * r;
          z = cos angle * r
      in s\<lparr>autoOrbitRef := angle,
           camera := \<lparr>position = lerp (position (camera s)) (Vector3 x 100 z) 0.05,
                      lookedAt = Vector3 0 0 0\<rparr>\<rparr>)"

text \<open>
  The hand branch: what the latest gesture does to the hand state and the camera. The
  ray caster that FOCUS sets up is not part of the state.
\<close>

fun hand_control :: "HandGesture \<Rightarrow> CameraController \<Rightarrow> CameraController" where
  "hand_control (ROTATE gx gy) s =
     (let speed = 5;
          h = (handState s)\<lparr>rotation_x := rotation_x (handState s) + gx * speed,
                            rotation_y := rotation_y (handState s) + gy * speed\<rparr>;
          r = zoom h;
          theta = rotation_x h;
          phi = max 0.1 (min (pi / 2 - 0.1) (rotation_y h + pi / 4));
          x = r * sin phi * sin theta;
          z = r * sin phi * cos theta;
          y = r * cos phi
      in s\<lparr>handState := h,
           camera := \<lparr>position = lerp (position (camera s)) (Vector3 x y z) 0.1,
                      lookedAt = Vector3 0 0 0\<rparr>\<rparr>)"
| "hand_control (ZOOM v) s =
     (let h = (handState s)\<lparr>zoom := max 50 (min 600 (zoom (handState s) - v))\<rparr>;
          dir = normalize (position (camera s))
      in s\<lparr>handState := h,
           camera := (camera s)\<lparr>position :=
                        lerp (position (camera s)) (multiplyScalar dir (zoom h)) 0.1\<rparr>\<rparr>)"
| "hand_control (FOCUS gx gy) s =
     s\<lparr>handState := (handState s)\<lparr>cursor := (gx * 2 - 1, - (gy * 2 - 1))\<rparr>\<rparr>"
| "hand_control NONE s = s"
| "hand_control EXIT_FOCUS s = s"

definition disable_controls :: "CameraController \<Rightarrow> CameraController" where
  \<comment> \<open>\<^verbatim>\<open>if (controlsRef.current) controlsRef.current.enabled = false\<close>\<close>
  "disable_controls s =
     (case controlsRef s of
        None \<Rightarrow> s
      | Some c \<Rightarrow> s\<lparr>controlsRef := Some (c\<lparr>enabled := False\<rparr>)\<rparr>)"

text \<open>
  The focused branch, for a body found in the catalog and mounted controls \<open>c\<close>: the
  body's place now, the target moved a tenth of the way to it, the camera a twentieth of
  the way to the offset (5, 3, 5) times the body's radius from it.
\<close>

definition focus_tracking ::
  "PlanetData \<Rightarrow> real \<Rightarrow> real \<Rightarrow> OrbitControls \<Rightarrow> CameraController \<Rightarrow> CameraController" where
  "focus_tracking planet simSpeed elapsed c s =
     (case focus_orbit planet simSpeed elapsed of
        (pX, pZ) \<Rightarrow>
          let targetPos = Vector3 pX 0 pZ;
              offset = Vector3 (pX + radius planet * 5) (radius planet * 3) (pZ + radius planet * 5)
          in s\<lparr>controlsRef := Some (c\<lparr>target := lerp (target c) targetPos 0.1\<rparr>),
               camera := (camera s)\<lparr>position := lerp (position (camera s)) offset 0.05\<rparr>\<rparr>)"

text \<open>
  The frame callback of the controller. \<open>gestureRef\<close> is the optional prop with the
  latest gesture (\<open>None\<close>: the prop was not passed), \<open>elapsed\<close> the clock's elapsed
  time and \<open>delta\<close> the time since the last frame.
\<close>

definition useFrame ::
  "controls_update \<Rightarrow> AppState \<Rightarrow> HandGesture option \<Rightarrow> real \<Rightarrow> real
     \<Rightarrow> CameraController \<Rightarrow> CameraController" where
  "useFrame upd appState gestureRef elapsed delta s =
     (if controlMode appState = AUTO then update upd (auto_orbit delta s)
      else if controlMode appState = HAND \<and> gestureRef \<noteq> None then
        (case gestureRef of
           None \<Rightarrow> s
         | Some gesture \<Rightarrow> disable_controls (hand_control gesture s))
      else if truthy (focusedBody appState) then
        (case focusedBody appState of
           None \<Rightarrow> s
         | Some i \<Rightarrow>
             (case find_planet i of
                None \<Rightarrow> s
              | Some planet \<Rightarrow>
                  (case controlsRef s of
                     None \<Rightarrow> s
                   | Some c \<Rightarrow>
                       update upd
                         (focus_tracking planet (simulationSpeed appState) elapsed c s))))
      else
        (case controlsRef s of
           None \<Rightarrow> s
         | Some c \<Rightarrow> update upd (s\<lparr>controlsRef := Some (c\<lparr>enabled := True\<rparr>)\<rparr>)))"

text \<open>
  The effect on focus changes. It runs after mounting and after every render in which
  \<^verbatim>\<open>focusedBody\<close> or \<^verbatim>\<open>controlMode\<close> changed; with no focus and outside
  autopilot it starts the transition back to the overview.
\<close>

definition reset_position_tween :: Tween where
  "reset_position_tween =
     \<lparr>animated = CameraPosition, to = Vector3 0 150 300, duration = 2, ease = ''power3.inOut''\<rparr>"

definition reset_target_tween :: Tween where
  "reset_target_tween =
     \<lparr>animated = ControlsTarget, to = Vector3 0 0 0, duration = 2, ease = ''power3.inOut''\<rparr>"

definition focusEffect :: "AppState \<Rightarrow> CameraController \<Rightarrow> CameraController" where
  "focusEffect appState s =
     (if truthy (focusedBody appState) then s
      else if controlMode appState = AUTO then s
      else s\<lparr>tweens := tweens s @ [reset_position_tween]
                 @ (case controlsRef s of None \<Rightarrow> [] | Some c \<Rightarrow> [reset_target_tween])\<rparr>)"

section \<open>The application: modes, focus, gestures and frames\<close>

text \<open>
  The webcam side of the hand controller: whether a stream is attached to the video
  element; how many \<^verbatim>\<open>loadeddata\<close> listeners the element carries (one is added
  with every granted stream and none is ever removed); the ids of the animation frames
  that were requested and have neither run nor been cancelled; the id that
  \<^verbatim>\<open>requestRef\<close> holds (0 before the first request); the id the next request
  will get; and how many requests for the camera are still unanswered.
\<close>

record Webcam =
  srcObject :: bool
  listeners :: nat
  pending :: "nat list"
  requestRef :: nat
  nextId :: nat
  requested :: nat

definition stopWebcam :: "Webcam \<Rightarrow> Webcam" where
  \<comment> \<open>stops the tracks and detaches the stream; cancels the one request whose id is in
     \<^verbatim>\<open>requestRef\<close>, if that is not 0\<close>
  "stopWebcam w =
     w\<lparr>srcObject := False,
       pending := (if requestRef w = 0 then pending w
                   else removeAll (requestRef w) (pending w))\<rparr>"

definition startWebcam :: "Webcam \<Rightarrow> Webcam" where
  \<comment> \<open>asks for the camera; the answer comes later\<close>
  "startWebcam w = w\<lparr>requested := requested w + 1\<rparr>"

definition requestAnimationFrame :: "Webcam \<Rightarrow> Webcam" where
  \<comment> \<open>\<^verbatim>\<open>requestRef.current = requestAnimationFrame(predictWebcam)\<close>\<close>
  "requestAnimationFrame w =
     w\<lparr>pending := pending w @ [nextId w], requestRef := nextId w, nextId := nextId w + 1\<rparr>"

definition handEffect :: "AppState \<Rightarrow> bool \<Rightarrow> Webcam \<Rightarrow> Webcam" where
  \<comment> \<open>the effect on \<^verbatim>\<open>[controlMode, isLoaded]\<close>, after the cleanup of its last run\<close>
  "handEffect appState loaded w =
     (if controlMode appState = HAND \<and> loaded then startWebcam (stopWebcam w)
      else stopWebcam (stopWebcam w))"

record App =
  appState :: AppState
  gestureRef :: HandGesture
  scene :: CameraController
  webcam :: Webcam
  classifier :: ClassifierState
  isLoaded :: bool

text \<open>
  A changed \<^verbatim>\<open>enabled\<close> prop is written to the controls object when the component
  renders again; an unchanged prop is not written again.
\<close>

definition apply_enabled_prop :: "AppState \<Rightarrow> AppState \<Rightarrow> CameraController \<Rightarrow> CameraController" where
  "apply_enabled_prop old new s =
     (if enabled_prop (OrbitControls_props new) = enabled_prop (OrbitControls_props old) then s
      else (case controlsRef s of
              None \<Rightarrow> s
            | Some c \<Rightarrow>
                s\<lparr>controlsRef := Some (c\<lparr>enabled := enabled_prop (OrbitControls_props new)\<rparr>)\<rparr>))"

text \<open>The setters of the application state; setting the value already held changes nothing.\<close>

definition setFocusedBody :: "string option \<Rightarrow> App \<Rightarrow> App" where
  "setFocusedBody f app =
     (if f = focusedBody (appState app) then app
      else let a = (appState app)\<lparr>focusedBody := f\<rparr>
           in app\<lparr>appState := a, scene := focusEffect a (scene app)\<rparr>)"

definition setControlMode :: "ControlMode \<Rightarrow> App \<Rightarrow> App" where
  "setControlMode m app =
     (if m = controlMode (appState app) then app
      else let a = (appState app)\<lparr>controlMode := m\<rparr>
           in app\<lparr>appState := a,
                  scene := focusEffect a (apply_enabled_prop (appState app) a (scene app)),
                  webcam := handEffect a (isLoaded app) (webcam app)\<rparr>)"

definition setSimulationSpeed :: "real \<Rightarrow> App \<Rightarrow> App" where
  "setSimulationSpeed v app = app\<lparr>appState := (appState app)\<lparr>simulationSpeed := v\<rparr>\<rparr>"

text \<open>
  \<^verbatim>\<open>handleGesture\<close>: the gesture is stored in the ref, and EXIT_FOCUS clears the
  focus if the handler sees one. \<open>seenFocus\<close> is the value of \<^verbatim>\<open>focusedBody\<close>
  in the closure of the handler that the sample loop holds.
\<close>

definition handleGesture :: "string option \<Rightarrow> HandGesture \<Rightarrow> App \<Rightarrow> App" where
  "handleGesture seenFocus gesture app =
     (let app1 = app\<lparr>gestureRef := gesture\<rparr>
      in if gesture = EXIT_FOCUS \<and> truthy seenFocus then setFocusedBody None app1 else app1)"

text \<open>
  One call of \<^verbatim>\<open>predictWebcam\<close> inside the application, as a listener of
  \<^verbatim>\<open>loadeddata\<close> or as the callback of an animation frame: the sample is
  classified against the shared refs, a gesture that comes out is handed to the handler
  of this closure, and unless the call threw or returned at once the next animation
  frame is requested. The landmarker exists from the moment \<^verbatim>\<open>isLoaded\<close> is set.
\<close>

definition predictWebcam_call :: "string option \<Rightarrow> int \<Rightarrow> hand list \<Rightarrow> App \<Rightarrow> App" where
  "predictWebcam_call seenFocus now landmarks app =
     (case predictWebcam (isLoaded app) now landmarks (classifier app) of
        (st', Inl e) \<Rightarrow> app\<lparr>classifier := st'\<rparr>
      | (st', Inr emitted) \<Rightarrow>
          let app1 = (case emitted of
                        None \<Rightarrow> app\<lparr>classifier := st'\<rparr>
                      | Some gesture \<Rightarrow> handleGesture seenFocus gesture (app\<lparr>classifier := st'\<rparr>))
          in if isLoaded app then app1\<lparr>webcam := requestAnimationFrame (webcam app1)\<rparr>
             else app1)"

text \<open>The listeners of \<^verbatim>\<open>loadeddata\<close> run one after the other, each on its own sample.\<close>

fun run_listeners :: "(string option \<times> int \<times> hand list) list \<Rightarrow> App \<Rightarrow> App" where
  "run_listeners [] app = app"
| "run_listeners ((seenFocus, now, landmarks) # calls) app =
     run_listeners calls (predictWebcam_call seenFocus now landmarks app)"

text \<open>
  What can happen to the application: the user interface sets mode, focus or speed; the
  landmark model finishes loading; a request for the camera is granted (the stream is
  attached and one more listener added) or denied; the video element reports loaded
  data of an attached stream and every listener runs; a pending animation frame runs
  \<^verbatim>\<open>predictWebcam\<close>; a frame is rendered. Each call of \<^verbatim>\<open>predictWebcam\<close>
  comes with the focus its handler's closure holds, the time and the hands the detector
  reports. The key handler is not part of this model.
\<close>

datatype Event =
    SetControlMode ControlMode
  | SetFocusedBody "string option"
  | SetSimulationSpeed real
  | LandmarkerReady
  | CameraGranted
  | CameraDenied
  | LoadedData "(string option \<times> int \<times> hand list) list"
  | VideoSample nat "string option" int "hand list"
  | Frame controls_update real real

fun app_step :: "Event \<Rightarrow> App \<Rightarrow> App" where
  "app_step (SetControlMode m) app = setControlMode m app"
| "app_step (SetFocusedBody f) app = setFocusedBody f app"
| "app_step (SetSimulationSpeed v) app = setSimulationSpeed v app"
| "app_step LandmarkerReady app =
     (if isLoaded app then app
      else app\<lparr>isLoaded := True, webcam := handEffect (appState app) True (webcam app)\<rparr>)"
| "app_step CameraGranted app =
     (if requested (webcam app) = 0 then app
      else app\<lparr>webcam := (webcam app)\<lparr>srcObject := True,
                                        listeners := listeners (webcam app) + 1,
                                        requested := requested (webcam app) - 1\<rparr>\<rparr>)"
| "app_step CameraDenied app =
     app\<lparr>webcam := (webcam app)\<lparr>requested := requested (webcam app) - 1\<rparr>\<rparr>"
| "app_step (LoadedData calls) app =
     (if srcObject (webcam app) \<and> length calls = listeners (webcam app)
      then run_listeners calls app else app)"
| "app_step (VideoSample i seenFocus now landmarks) app =
     (if i \<in> set (pending (webcam app))
      then predictWebcam_call seenFocus now landmarks
             (app\<lparr>webcam := (webcam app)\<lparr>pending := removeAll i (pending (webcam app))\<rparr>\<rparr>)
      else app)"
| "app_step (Frame upd elapsed delta) app =
     app\<lparr>scene := useFrame upd (appState app) (Some (gestureRef app)) elapsed delta (scene app)\<rparr>"

fun app_run :: "Event list \<Rightarrow> App \<Rightarrow> App" where
  "app_run [] app = app"
| "app_run (e # es) app = app_run es (app_step e app)"

fun is_Frame :: "Event \<Rightarrow> bool" where
  "is_Frame (Frame upd elapsed delta) = True"
| "is_Frame e = False"

text \<open>
  The application after mounting: pointer mode, no focus, speed 1, the gesture NONE, the
  camera at (0, 150, 300) turned to the origin, the controls enabled by their prop, and
  the focus effect run once.
\<close>

definition AppState_init :: AppState where
  "AppState_init = \<lparr>controlMode = MOUSE, focusedBody = None, simulationSpeed = 1\<rparr>"

definition OrbitControls_init :: OrbitControls where
  "OrbitControls_init =
     \<lparr>target = Vector3 0 0 0, enabled = enabled_prop (OrbitControls_props AppState_init)\<rparr>"

definition CameraController_init :: CameraController where
  "CameraController_init =
     focusEffect AppState_init
       \<lparr>camera = \<lparr>position = Vector3 0 150 300, lookedAt = Vector3 0 0 0\<rparr>,
        controlsRef = Some OrbitControls_init,
        autoOrbitRef = 0,
        handState = HandState_init,
        tweens = []\<rparr>"

definition App_init :: App where
  "App_init =
     \<lparr>appState = AppState_init, gestureRef = NONE, scene = CameraController_init,
      webcam = \<lparr>srcObject = False, listeners = 0, pending = [], requestRef = 0, nextId = 1,
                requested = 0\<rparr>,
      classifier = ClassifierState_init,
      isLoaded = False\<rparr>"

definition late_grant :: "Event list" where
  \<comment> \<open>the Earth focused, hand mode entered and left again before the camera is granted\<close>
  "late_grant =
     [SetFocusedBody (Some ''earth''), LandmarkerReady, SetControlMode HAND,
      SetControlMode MOUSE, CameraGranted]"

text \<open>The orbit controls are mounted: the ref holds the object.\<close>

definition mounted :: "CameraController \<Rightarrow> bool" where
  "mounted s = (controlsRef s \<noteq> None)"


definition hand_visit :: "Event list" where
  \<comment> \<open>hand mode entered, the camera granted, two hands seen 0.10 and then 0.13 apart\<close>
  "hand_visit =
     [LandmarkerReady, SetControlMode HAND, CameraGranted,
      LoadedData [(None, 0, [hand_at 0, hand_at 0.10])],
      VideoSample 1 None 40 [hand_at 0, hand_at 0.13]]"

definition hand_app :: App where
  \<comment> \<open>after that visit, pointer mode chosen again\<close>
  "hand_app = app_run (hand_visit @ [SetControlMode MOUSE]) App_init"

definition second_visit :: "Event list" where
  \<comment> \<open>hand mode entered once more: the new stream reaches both listeners; then pointer mode\<close>
  "second_visit =
     [SetControlMode HAND, CameraGranted,
      LoadedData [(None, 80, [hand_at 0, hand_at 0.13]), (None, 81, [hand_at 0, hand_at 0.13])],
      SetControlMode MOUSE]"

definition focused_app :: App where
  \<comment> \<open>the Earth chosen in pointer mode\<close>
  "focused_app = app_run [SetFocusedBody (Some ''earth'')] App_init"

section \<open>Properties of orbit kinematics\<close>

lemma find_planet_earth: "find_planet ''earth'' = Some earth"
  by (simp add: find_planet_def PLANET_DATA_def earth_def)

lemma catalog_distance_nonneg: "list_all (\<lambda>p. 0 \<le> distance p) PLANET_DATA"
  by (simp add: PLANET_DATA_def)

lemma Planet_frames_append:
  "Planet_frames data st (fs @ gs) = Planet_frames data (Planet_frames data st fs) gs"
  by (induction fs arbitrary: st) auto

lemma Planet_frames_rest:
  "distance data = 0 \<Longrightarrow> mesh_position st = Vector3 0 0 0 \<Longrightarrow>
   mesh_position (Planet_frames data st fs) = Vector3 0 0 0"
proof (induction fs arbitrary: st)
  case Nil
  then show ?case by simp
next
  case (Cons f fs)
  obtain elapsed simSpeed where f: "f = (elapsed, simSpeed)" by (cases f)
  have "mesh_position (Planet_useFrame data simSpeed elapsed st) = Vector3 0 0 0"
    using Cons.prems by (simp add: Planet_useFrame_def Let_def)
  with Cons.IH [OF Cons.prems(1)] f show ?case by simp
qed

text \<open>
  C7. Orbit kinematics is a pure function of body, elapsed time and speed multiplier:
  for a body whose orbital distance is not negative (every body of the catalog), the
  camera controller's focus-tracking computation and the position the rendering layer
  has after any run of frames both equal the specified
  (cos(angle) * distance, sin(angle) * distance) with
  angle = elapsedTime * speed * simulationSpeed * 0.2, and a body at distance 0 is at the
  origin whatever the time.
\<close>

theorem orbit_kinematics_agree:
  assumes "0 \<le> distance body"
  shows "focus_orbit body simSpeed elapsed = spec_position body elapsed simSpeed
       \<and> xz (mesh_position (Planet_frames body Planet_init (fs @ [(elapsed, simSpeed)])))
           = spec_position body elapsed simSpeed
       \<and> spec_position (body\<lparr>distance := 0\<rparr>) elapsed simSpeed = (0, 0)"
proof -
  have a: "focus_orbit body simSpeed elapsed = spec_position body elapsed simSpeed"
    by (simp add: focus_orbit_def spec_position_def)
  have c: "spec_position (body\<lparr>distance := 0\<rparr>) elapsed simSpeed = (0, 0)"
    by (simp add: spec_position_def)
  have b: "xz (mesh_position (Planet_frames body Planet_init (fs @ [(elapsed, simSpeed)])))
           = spec_position body elapsed simSpeed"
  proof (cases "distance body = 0")
    case True
    have "mesh_position (Planet_frames body Planet_init (fs @ [(elapsed, simSpeed)]))
            = Vector3 0 0 0"
      by (rule Planet_frames_rest [OF True]) (simp add: Planet_init_def)
    with True show ?thesis by (simp add: xz_def spec_position_def)
  next
    case False
    with assms have "0 < distance body" by simp
    then show ?thesis
      by (simp add: Planet_frames_append Planet_useFrame_def Let_def xz_def spec_position_def)
  qed
  from a b c show ?thesis by simp
qed

theorem orbit_kinematics_agree_witness:
  "0 \<le> distance earth
   \<and> focus_orbit earth 1 0 = (75, 0)
   \<and> xz (mesh_position (Planet_frames earth Planet_init ([(5, 2)] @ [(0, 1)]))) = (75, 0)
   \<and> spec_position earth 0 1 = (75, 0)"
proof -
  have h: "0 \<le> distance earth" by (simp add: earth_def)
  have s: "spec_position earth 0 1 = (75, 0)" by (simp add: spec_position_def earth_def)
  from orbit_kinematics_agree [OF h, of 1 0 "[(5, 2)]"] h s show ?thesis by simp
qed

section \<open>Properties of the gesture classifier\<close>

text \<open>
  C10. A tick in which no hand is detected calls the gesture callback with NONE and
  clears both retained positions (the last single-hand position and the last two-hand
  distance); a second such tick changes nothing further and yields the same outcome,
  and whatever hands the next sample shows, it yields neither a ZOOM nor a ROTATE, so
  that no delta against an old position is emitted.
\<close>

theorem no_hand_rest_state:
  "predictWebcam True now [] st
      = (st\<lparr>lastHandPos := None, lastPinchDist := None\<rparr>, Inr (Some NONE))
   \<and> predictWebcam True now' [] (fst (predictWebcam True now [] st))
      = predictWebcam True now [] st
   \<and> snd (predictWebcam True now' landmarks (fst (predictWebcam True now [] st)))
      \<noteq> Inr (Some (ZOOM d))
   \<and> snd (predictWebcam True now' landmarks (fst (predictWebcam True now [] st)))
      \<noteq> Inr (Some (ROTATE dx dy))"
proof -
  let ?st = "st\<lparr>lastHandPos := None, lastPinchDist := None\<rparr>"
  have a: "predictWebcam True now [] st = (?st, Inr (Some NONE))"
    by (simp add: predictWebcam_def)
  have b: "predictWebcam True now' [] ?st = (?st, Inr (Some NONE))"
    by (simp add: predictWebcam_def)
  have c: "snd (predictWebcam True now' landmarks ?st) \<noteq> Inr (Some (ZOOM d))"
    by (auto simp: predictWebcam_def processGestures_def processGestures_single_def Let_def
          split: list.splits)
  have d: "snd (predictWebcam True now' landmarks ?st) \<noteq> Inr (Some (ROTATE dx dy))"
    by (auto simp: predictWebcam_def processGestures_def processGestures_single_def Let_def
          split: list.splits)
  from a b c d show ?thesis by simp
qed

lemma example_hand_nonempty: "example_hand wx wy i m r p \<noteq> []"
  by (simp add: example_hand_def Let_def)

lemma example_hand_wrist: "example_hand wx wy i m r p ! 0 = Landmark wx wy"
  by (simp add: example_hand_def Let_def)

lemma wrist_distance_hand_at: "wrist_distance (hand_at a) (hand_at b) = \<bar>a - b\<bar>"
  by (simp add: wrist_distance_def hand_at_def example_hand_wrist)

lemma hand_at_nonempty: "hand_at a \<noteq> []"
  by (simp add: hand_at_def example_hand_nonempty)

lemma two_hand_step:
  assumes "hand1 \<noteq> []" "hand2 \<noteq> []"
  shows "processGestures now [hand1, hand2] st =
     (st\<lparr>lastPinchDist := Some (wrist_distance hand1 hand2), lastHandPos := None\<rparr>,
      Inr (case lastPinchDist st of
             None \<Rightarrow> None
           | Some old \<Rightarrow>
               if \<bar>wrist_distance hand1 hand2 - old\<bar> > 0.005
               then Some (ZOOM ((wrist_distance hand1 hand2 - old) * 20)) else None))"
  using assms
  by (simp add: processGestures_def wrist_distance_def Let_def split: option.splits)

text \<open>
  C3 (amended). In a tick with two hands (each with its wrist landmark) and a stored
  previous wrist distance, the classifier calls the gesture callback with
  ZOOM((newDistance - oldDistance) * 20) when |newDistance - oldDistance| > 0.005 and
  otherwise does not call it at all, so that the latest gesture stays what it was; in
  both cases it stores the new distance and clears the single-hand position. Wrist
  distances 0.10 and then 0.13 give the one gesture ZOOM(0.6), positive for hands moving
  apart.
\<close>

theorem two_hand_zoom:
  assumes "hand1 \<noteq> []" and "hand2 \<noteq> []" and "lastPinchDist st = Some old"
  shows "processGestures now [hand1, hand2] st =
           (st\<lparr>lastPinchDist := Some (wrist_distance hand1 hand2), lastHandPos := None\<rparr>,
            Inr (if \<bar>wrist_distance hand1 hand2 - old\<bar> > 0.005
                 then Some (ZOOM ((wrist_distance hand1 hand2 - old) * 20)) else None))
       \<and> webcam_loop ClassifierState_init
            [(0, [hand_at 0, hand_at 0.10]), (40, [hand_at 0, hand_at 0.13])]
           = [(40, ZOOM 0.6)]"
proof -
  have step: "processGestures now [hand1, hand2] st =
           (st\<lparr>lastPinchDist := Some (wrist_distance hand1 hand2), lastHandPos := None\<rparr>,
            Inr (if \<bar>wrist_distance hand1 hand2 - old\<bar> > 0.005
                 then Some (ZOOM ((wrist_distance hand1 hand2 - old) * 20)) else None))"
    using assms by (simp add: two_hand_step)
  have scenario: "webcam_loop ClassifierState_init
            [(0, [hand_at 0, hand_at 0.10]), (40, [hand_at 0, hand_at 0.13])]
           = [(40, ZOOM 0.6)]"
    by (simp add: predictWebcam_def two_hand_step hand_at_nonempty wrist_distance_hand_at
          ClassifierState_init_def)
  from step scenario show ?thesis by simp
qed

theorem two_hand_zoom_witness:
  "hand_at 0 \<noteq> [] \<and> hand_at 0.13 \<noteq> []
   \<and> lastPinchDist (ClassifierState_init\<lparr>lastPinchDist := Some 0.10\<rparr>) = Some 0.10
   \<and> processGestures 40 [hand_at 0, hand_at 0.13] (ClassifierState_init\<lparr>lastPinchDist := Some 0.10\<rparr>)
       = (ClassifierState_init\<lparr>lastPinchDist := Some 0.13, lastHandPos := None\<rparr>,
          Inr (Some (ZOOM 0.6)))"
proof -
  have h1: "hand_at 0 \<noteq> []" and h2: "hand_at 0.13 \<noteq> []"
    by (simp_all add: hand_at_nonempty)
  have h3: "lastPinchDist (ClassifierState_init\<lparr>lastPinchDist := Some 0.10\<rparr>) = Some 0.10"
    by simp
  from two_hand_zoom [OF h1 h2 h3, of 40] h1 h2 show ?thesis
    by (simp add: wrist_distance_hand_at)
qed

text \<open>
  Inside the dead zone no NONE gesture is emitted: with the wrists 0.13 apart as in the
  tick before, the callback is not called at all.
\<close>

theorem two_hand_zoom_counterexample:
  "snd (processGestures 80 [hand_at 0, hand_at 0.13]
          (ClassifierState_init\<lparr>lastPinchDist := Some 0.13\<rparr>)) = Inr None
   \<and> snd (processGestures 80 [hand_at 0, hand_at 0.13]
          (ClassifierState_init\<lparr>lastPinchDist := Some 0.13\<rparr>)) \<noteq> Inr (Some NONE)"
  by (simp add: two_hand_step hand_at_nonempty wrist_distance_hand_at)

lemma hold_start_lower_bound:
  "predictWebcam True now hs st = (st', r) \<Longrightarrow> lo \<le> now \<Longrightarrow> lo \<le> gestureHoldStart st
   \<Longrightarrow> lo \<le> gestureHoldStart st'"
  by (auto simp: predictWebcam_def processGestures_def processGestures_single_def Let_def
        split: if_splits list.splits)

lemma exit_focus_needs_hold:
  "predictWebcam True now hs st = (st', Inr (Some EXIT_FOCUS))
   \<Longrightarrow> now - gestureHoldStart st > 1000"
  by (auto simp: predictWebcam_def processGestures_def processGestures_single_def Let_def
        split: if_splits list.splits option.splits prod.splits)

lemma exit_focus_gap:
  "\<forall>t\<in>set (map fst samples). lo \<le> t \<Longrightarrow> lo \<le> gestureHoldStart st
   \<Longrightarrow> (t, EXIT_FOCUS) \<in> set (webcam_loop st samples) \<Longrightarrow> t - lo > 1000"
proof (induction samples arbitrary: st)
  case Nil
  then show ?case by simp
next
  case (Cons s samples)
  obtain now hs where s: "s = (now, hs)" by (cases s)
  obtain st' r where p: "predictWebcam True now hs st = (st', r)"
    by (cases "predictWebcam True now hs st")
  have lo: "lo \<le> now" using Cons.prems(1) s by simp
  have h': "lo \<le> gestureHoldStart st'" using hold_start_lower_bound [OF p lo Cons.prems(2)] .
  have rest: "\<forall>t\<in>set (map fst samples). lo \<le> t" using Cons.prems(1) by simp
  show ?case
  proof (cases r)
    case (Inl e)
    with Cons.prems(3) s p show ?thesis by simp
  next
    case (Inr g)
    show ?thesis
    proof (cases g)
      case None
      with Inr Cons.prems(3) s p have "(t, EXIT_FOCUS) \<in> set (webcam_loop st' samples)"
        by simp
      from Cons.IH [OF rest h' this] show ?thesis .
    next
      case (Some e)
      with Inr Cons.prems(3) s p
      consider "t = now" "e = EXIT_FOCUS" | "(t, EXIT_FOCUS) \<in> set (webcam_loop st' samples)"
        by auto
      then show ?thesis
      proof cases
        case 1
        with p Inr Some have "now - gestureHoldStart st > 1000"
          using exit_focus_needs_hold by blast
        with 1 Cons.prems(2) show ?thesis by simp
      next
        case 2
        from Cons.IH [OF rest h' 2] show ?thesis .
      qed
    qed
  qed
qed

lemma single_hand_hold:
  assumes "length landmarks \<ge> 21"
  shows "snd (processGestures now [landmarks] st) = Inr (Some EXIT_FOCUS)
          \<longleftrightarrow> isPalmOpen landmarks \<and> now - gestureHoldStart st > 1000"
    and "snd (processGestures now [landmarks] st) = Inr (Some EXIT_FOCUS)
          \<longrightarrow> gestureHoldStart (fst (processGestures now [landmarks] st)) = now"
    and "isPalmOpen landmarks \<and> \<not> now - gestureHoldStart st > 1000
          \<longrightarrow> gestureHoldStart (fst (processGestures now [landmarks] st)) = gestureHoldStart st"
    and "\<not> isPalmOpen landmarks \<and> \<not> isVictory landmarks
          \<longrightarrow> gestureHoldStart (fst (processGestures now [landmarks] st)) = now"
  using assms
  by (auto simp: processGestures_def processGestures_single_def Let_def isPalmOpen_def
        isVictory_def split: option.splits prod.splits)

text \<open>
  C2 (amended). For every single-hand frame (21 landmarks) the classifier emits
  EXIT_FOCUS exactly when the pose is the open palm (all four non-thumb fingertips above
  their proximal joints) and more than 1000 ms have passed since the stored hold-start
  timestamp; on emitting it sets the hold-start to the current time, while an open palm
  that has not yet reached the threshold leaves it unchanged. A single-hand frame that
  is neither the open palm nor the peace sign resets the hold-start to the current time.
  After any tick that set the hold-start to its own time, every EXIT_FOCUS of the later
  samples comes more than 1000 ms after that tick: a pose held on yields EXIT_FOCUS
  again after each further second, not once per tick.
\<close>

theorem exit_focus_debounce:
  "(21 \<le> length landmarks \<longrightarrow>
      (snd (processGestures now [landmarks] st) = Inr (Some EXIT_FOCUS)
         \<longleftrightarrow> isPalmOpen landmarks \<and> now - gestureHoldStart st > 1000)
    \<and> (snd (processGestures now [landmarks] st) = Inr (Some EXIT_FOCUS)
         \<longrightarrow> gestureHoldStart (fst (processGestures now [landmarks] st)) = now)
    \<and> (isPalmOpen landmarks \<and> \<not> now - gestureHoldStart st > 1000
         \<longrightarrow> gestureHoldStart (fst (processGestures now [landmarks] st)) = gestureHoldStart st)
    \<and> (\<not> isPalmOpen landmarks \<and> \<not> isVictory landmarks
         \<longrightarrow> gestureHoldStart (fst (processGestures now [landmarks] st)) = now))
   \<and> (gestureHoldStart (fst (predictWebcam True now hs st)) = now
      \<and> (\<forall>t\<in>set (map fst samples). now \<le> t)
      \<and> (t, EXIT_FOCUS) \<in> set (webcam_loop (fst (predictWebcam True now hs st)) samples)
      \<longrightarrow> t - now > 1000)"
proof -
  have trace: "t - now > 1000"
    if "gestureHoldStart (fst (predictWebcam True now hs st)) = now"
      and "\<forall>t\<in>set (map fst samples). now \<le> t"
      and "(t, EXIT_FOCUS) \<in> set (webcam_loop (fst (predictWebcam True now hs st)) samples)"
  proof -
    from that(1) have "now \<le> gestureHoldStart (fst (predictWebcam True now hs st))" by simp
    from exit_focus_gap [OF that(2) this that(3)] show ?thesis .
  qed
  from single_hand_hold [of landmarks now st] trace show ?thesis by blast
qed

theorem exit_focus_debounce_witness:
  "21 \<le> length open_palm \<and> isPalmOpen open_palm
   \<and> snd (processGestures 6001 [open_palm] (ClassifierState_init\<lparr>gestureHoldStart := 5000\<rparr>))
       = Inr (Some EXIT_FOCUS)
   \<and> gestureHoldStart
       (fst (predictWebcam True 6001 [open_palm] (ClassifierState_init\<lparr>gestureHoldStart := 5000\<rparr>)))
       = 6001
   \<and> list_all (\<lambda>t. (6001::int) \<le> t) (map fst [(6500, [open_palm]), (7002, [open_palm])])
   \<and> (7002, EXIT_FOCUS) \<in> set (webcam_loop
         (fst (predictWebcam True 6001 [open_palm] (ClassifierState_init\<lparr>gestureHoldStart := 5000\<rparr>)))
         [(6500, [open_palm]), (7002, [open_palm])])
   \<and> (7002::int) - 6001 > 1000"
proof -
  have len: "21 \<le> length open_palm"
    by (simp add: open_palm_def example_hand_def Let_def)
  have palm: "isPalmOpen open_palm"
    by (simp add: isPalmOpen_def open_palm_def example_hand_def Let_def)
  have hold: "gestureHoldStart
       (fst (predictWebcam True 6001 [open_palm] (ClassifierState_init\<lparr>gestureHoldStart := 5000\<rparr>)))
       = 6001"
    by (simp add: predictWebcam_def processGestures_def processGestures_single_def Let_def
          ClassifierState_init_def open_palm_def example_hand_def)
  have later: "(7002, EXIT_FOCUS) \<in> set (webcam_loop
         (fst (predictWebcam True 6001 [open_palm] (ClassifierState_init\<lparr>gestureHoldStart := 5000\<rparr>)))
         [(6500, [open_palm]), (7002, [open_palm])])"
    by (simp add: predictWebcam_def processGestures_def processGestures_single_def Let_def
          ClassifierState_init_def open_palm_def example_hand_def)
  from exit_focus_debounce [of open_palm 6001 "ClassifierState_init\<lparr>gestureHoldStart := 5000\<rparr>"
        "[open_palm]" "[(6500, [open_palm]), (7002, [open_palm])]" 7002]
    len palm hold later
  show ?thesis by simp
qed

text \<open>
  One continuous hold yields more than one event: after a closed hand at 5000 ms the
  open palm is shown in every sample from 5500 ms to 7002 ms, and EXIT_FOCUS is emitted
  at 6001 ms and again at 7002 ms.
\<close>

theorem exit_focus_debounce_counterexample:
  "webcam_loop ClassifierState_init
     [(5000, [fist]), (5500, [open_palm]), (6001, [open_palm]), (6500, [open_palm]),
      (7002, [open_palm])]
   = [(6001, EXIT_FOCUS), (7002, EXIT_FOCUS)]"
  by (simp add: predictWebcam_def processGestures_def processGestures_single_def Let_def
      ClassifierState_init_def fist_def open_palm_def example_hand_def)

text \<open>
  The hold-start is reset only by a single-hand frame that reaches the palm test. A frame
  with the peace sign, with two hands or with no hand returns before it, and the
  timestamp starts at 0: an open palm shown for the first time after such frames emits
  EXIT_FOCUS in its first sample.
\<close>

lemma exit_focus_after_frames_without_reset:
  "webcam_loop ClassifierState_init
     [(5000, [fist]), (6000, [victory]), (7000, []), (7001, [open_palm])]
   = [(7000, NONE), (7001, EXIT_FOCUS)]"
  by (simp add: predictWebcam_def processGestures_def processGestures_single_def Let_def
      ClassifierState_init_def fist_def victory_def open_palm_def example_hand_def)

lemma exit_focus_on_first_sample:
  "webcam_loop ClassifierState_init [(5000, [open_palm])] = [(5000, EXIT_FOCUS)]"
  by (simp add: predictWebcam_def processGestures_def processGestures_single_def Let_def
      ClassifierState_init_def open_palm_def example_hand_def)

section \<open>Properties of the camera controller and the application\<close>

lemma handState_update [simp]: "handState (update upd s) = handState s"
  by (simp add: update_def split: option.splits prod.splits)

lemma tweens_update [simp]: "tweens (update upd s) = tweens s"
  by (simp add: update_def split: option.splits prod.splits)

lemma handState_focusEffect [simp]: "handState (focusEffect a s) = handState s"
  by (simp add: focusEffect_def)

lemma handState_apply_enabled_prop [simp]: "handState (apply_enabled_prop old new s) = handState s"
  by (simp add: apply_enabled_prop_def split: option.splits)

lemma handState_disable_controls [simp]: "handState (disable_controls s) = handState s"
  by (simp add: disable_controls_def split: option.splits)

lemma tweens_disable_controls [simp]: "tweens (disable_controls s) = tweens s"
  by (simp add: disable_controls_def split: option.splits)

lemma tweens_hand_control [simp]: "tweens (hand_control g s) = tweens s"
  by (cases g) (simp_all add: Let_def)

lemma handState_auto_orbit [simp]: "handState (auto_orbit delta s) = handState s"
  by (simp add: auto_orbit_def Let_def)

lemma tweens_auto_orbit [simp]: "tweens (auto_orbit delta s) = tweens s"
  by (simp add: auto_orbit_def Let_def)

lemma handState_focus_tracking [simp]: "handState (focus_tracking p v e c s) = handState s"
  by (simp add: focus_tracking_def Let_def split: prod.splits)

lemma tweens_focus_tracking [simp]: "tweens (focus_tracking p v e c s) = tweens s"
  by (simp add: focus_tracking_def Let_def split: prod.splits)

lemma zoom_hand_control:
  "50 \<le> zoom (handState s) \<Longrightarrow> zoom (handState s) \<le> 600 \<Longrightarrow>
   50 \<le> zoom (handState (hand_control g s)) \<and> zoom (handState (hand_control g s)) \<le> 600"
  by (cases g) (simp_all add: Let_def)

lemma tweens_useFrame: "tweens (useFrame upd a g elapsed delta s) = tweens s"
  by (simp add: useFrame_def split: option.splits)

lemma zoom_useFrame:
  "50 \<le> zoom (handState s) \<Longrightarrow> zoom (handState s) \<le> 600 \<Longrightarrow>
   50 \<le> zoom (handState (useFrame upd a g elapsed delta s))
   \<and> zoom (handState (useFrame upd a g elapsed delta s)) \<le> 600"
  using zoom_hand_control by (simp add: useFrame_def split: option.splits)

lemma handState_setFocusedBody [simp]:
  "handState (scene (setFocusedBody f app)) = handState (scene app)"
  by (simp add: setFocusedBody_def Let_def)

lemma handState_setControlMode [simp]:
  "handState (scene (setControlMode m app)) = handState (scene app)"
  by (simp add: setControlMode_def Let_def)

lemma handState_handleGesture [simp]:
  "handState (scene (handleGesture f g app)) = handState (scene app)"
  by (simp add: handleGesture_def Let_def)

lemma handState_predictWebcam_call [simp]:
  "handState (scene (predictWebcam_call f now lm app)) = handState (scene app)"
  by (simp add: predictWebcam_call_def Let_def split: prod.splits sum.splits option.splits)

lemma handState_run_listeners [simp]:
  "handState (scene (run_listeners calls app)) = handState (scene app)"
  by (induction calls app rule: run_listeners.induct) simp_all

lemma zoom_app_step:
  "50 \<le> zoom (handState (scene app)) \<Longrightarrow> zoom (handState (scene app)) \<le> 600 \<Longrightarrow>
   50 \<le> zoom (handState (scene (app_step e app)))
   \<and> zoom (handState (scene (app_step e app))) \<le> 600"
  using zoom_useFrame by (cases e) (simp_all add: setSimulationSpeed_def)

lemma zoom_app_run:
  "50 \<le> zoom (handState (scene app)) \<Longrightarrow> zoom (handState (scene app)) \<le> 600 \<Longrightarrow>
   50 \<le> zoom (handState (scene (app_run es app)))
   \<and> zoom (handState (scene (app_run es app))) \<le> 600"
proof (induction es arbitrary: app)
  case Nil
  then show ?case by simp
next
  case (Cons e es)
  from zoom_app_step [OF Cons.prems] Cons.IH show ?case by simp
qed

lemma zoom_init: "zoom (handState (scene App_init)) = 300"
  by (simp add: App_init_def CameraController_init_def HandState_init_def)

text \<open>
  C8. The zoom radius of the hand state never leaves the interval [50, 600]: it starts at
  300, a ZOOM gesture sets it to a value clamped to that interval whatever the delta, and
  nothing else writes it, so it lies in the interval after every sequence of events of
  the application.
\<close>

theorem zoom_radius_clamped:
  "50 \<le> zoom (handState (scene (app_run es App_init)))
   \<and> zoom (handState (scene (app_run es App_init))) \<le> 600
   \<and> 50 \<le> zoom (handState (hand_control (ZOOM v) s))
   \<and> zoom (handState (hand_control (ZOOM v) s)) \<le> 600"
proof -
  have "50 \<le> zoom (handState (scene App_init))" "zoom (handState (scene App_init)) \<le> 600"
    by (simp_all add: zoom_init)
  from zoom_app_run [OF this] show ?thesis by (simp add: Let_def)
qed

lemma tweens_frames:
  "list_all is_Frame frames \<Longrightarrow> tweens (scene (app_run frames app)) = tweens (scene app)"
proof (induction frames arbitrary: app)
  case Nil
  then show ?case by simp
next
  case (Cons e es)
  then obtain upd elapsed delta where e: "e = Frame upd elapsed delta" by (cases e) simp_all
  from Cons have "tweens (scene (app_run es (app_step e app))) = tweens (scene (app_step e app))"
    by simp
  with e show ?case by (simp add: tweens_useFrame)
qed

text \<open>
  C6. When a focus is set, the mode is not autopilot and the controls are mounted,
  clearing the focus starts exactly one transition: one tween of the camera position to
  (0, 150, 300) and one of the look-at target to (0, 0, 0), each of 2 seconds with an
  in-out easing; the render frames that follow, however many, start no further one.
\<close>

theorem focus_cleared_transition:
  assumes "truthy (focusedBody (appState app))" and "\<not> truthy f"
    and "controlMode (appState app) \<noteq> AUTO"
    and "controlsRef (scene app) = Some c"
    and "list_all is_Frame frames"
  shows "tweens (scene (app_run frames (app_step (SetFocusedBody f) app)))
           = tweens (scene app) @ [reset_position_tween, reset_target_tween]
       \<and> to reset_position_tween = Vector3 0 150 300 \<and> duration reset_position_tween = 2
       \<and> to reset_target_tween = Vector3 0 0 0 \<and> duration reset_target_tween = 2"
proof -
  from assms(1,2) have ne: "f \<noteq> focusedBody (appState app)" by auto
  have "tweens (scene (app_step (SetFocusedBody f) app))
          = tweens (scene app) @ [reset_position_tween, reset_target_tween]"
    using ne assms(2,3,4) by (simp add: setFocusedBody_def focusEffect_def Let_def)
  with tweens_frames [OF assms(5)] show ?thesis
    by (simp add: reset_position_tween_def reset_target_tween_def)
qed

lemma mount_controls: "controlsRef CameraController_init = Some OrbitControls_init"
  by (simp add: CameraController_init_def focusEffect_def AppState_init_def truthy_def)

lemma mount_camera:
  "camera CameraController_init = \<lparr>position = Vector3 0 150 300, lookedAt = Vector3 0 0 0\<rparr>"
  by (simp add: CameraController_init_def focusEffect_def AppState_init_def truthy_def)

lemma mount_tweens: "tweens CameraController_init = [reset_position_tween, reset_target_tween]"
  by (simp add: CameraController_init_def focusEffect_def AppState_init_def truthy_def
      OrbitControls_init_def)

lemma focused_app_facts:
  "appState focused_app = AppState_init\<lparr>focusedBody := Some ''earth''\<rparr>"
  "scene focused_app = CameraController_init"
  by (simp_all add: focused_app_def setFocusedBody_def Let_def App_init_def AppState_init_def
      focusEffect_def truthy_def)

theorem focus_cleared_transition_witness:
  "truthy (focusedBody (appState focused_app)) \<and> \<not> truthy None
   \<and> controlMode (appState focused_app) \<noteq> AUTO
   \<and> controlsRef (scene focused_app) = Some OrbitControls_init
   \<and> list_all is_Frame [Frame no_update 0 0, Frame no_update 1 1]
   \<and> tweens (scene (app_run [Frame no_update 0 0, Frame no_update 1 1]
               (app_step (SetFocusedBody None) focused_app)))
       = [reset_position_tween, reset_target_tween, reset_position_tween, reset_target_tween]"
proof -
  have f: "truthy (focusedBody (appState focused_app))"
    by (simp add: focused_app_facts truthy_def)
  have n: "\<not> truthy None" by (simp add: truthy_def)
  have m: "controlMode (appState focused_app) \<noteq> AUTO"
    by (simp add: focused_app_facts AppState_init_def)
  have c: "controlsRef (scene focused_app) = Some OrbitControls_init"
    by (simp add: focused_app_facts mount_controls)
  have l: "list_all is_Frame [Frame no_update 0 0, Frame no_update 1 1]" by simp
  from focus_cleared_transition [OF f n m c l]
  have t: "tweens (scene (app_run [Frame no_update 0 0, Frame no_update 1 1]
               (app_step (SetFocusedBody None) focused_app)))
       = tweens (scene focused_app) @ [reset_position_tween, reset_target_tween]"
    by blast
  have "tweens (scene focused_app) = [reset_position_tween, reset_target_tween]"
    by (simp only: focused_app_facts mount_tweens)
  with t have t': "tweens (scene (app_run [Frame no_update 0 0, Frame no_update 1 1]
               (app_step (SetFocusedBody None) focused_app)))
       = [reset_position_tween, reset_target_tween, reset_position_tween, reset_target_tween]"
    by simp
  from f n m c l t' show ?thesis by (intro conjI)
qed

text \<open>
  C1 (amended). In every render frame in which the focus is set to a body of the catalog,
  the controls are mounted and the control mode is Pointer or Keyboard, the controller
  tracks the focused body: it computes the body's orbital position from the current
  elapsed time, moves the look-at target towards that position with factor 0.1 and the
  camera position with factor 0.05 towards the point offset from the body by (5, 3, 5)
  times its radius, and then lets the controls update. In Hand mode the frame interprets
  the latest gesture and disables the controls instead; it does no focus tracking.
\<close>

theorem focus_tracking_dispatch:
  assumes "controlMode a = MOUSE \<or> controlMode a = KEYBOARD"
    and "focusedBody a = Some i" and "i \<noteq> []"
    and "find_planet i = Some planet"
    and "controlsRef s = Some c"
  shows "useFrame upd a g elapsed delta s
           = update upd (focus_tracking planet (simulationSpeed a) elapsed c s)
       \<and> controlsRef (focus_tracking planet (simulationSpeed a) elapsed c s)
           = Some (c\<lparr>target := lerp (target c)
                 (Vector3 (fst (spec_position planet elapsed (simulationSpeed a))) 0
                          (snd (spec_position planet elapsed (simulationSpeed a)))) 0.1\<rparr>)
       \<and> position (camera (focus_tracking planet (simulationSpeed a) elapsed c s))
           = lerp (position (camera s))
               (Vector3 (fst (spec_position planet elapsed (simulationSpeed a)) + radius planet * 5)
                        (radius planet * 3)
                        (snd (spec_position planet elapsed (simulationSpeed a)) + radius planet * 5))
               0.05
       \<and> useFrame upd (a\<lparr>controlMode := HAND\<rparr>) (Some gesture) elapsed delta s
           = disable_controls (hand_control gesture s)"
proof -
  have d: "useFrame upd a g elapsed delta s
           = update upd (focus_tracking planet (simulationSpeed a) elapsed c s)"
    using assms by (auto simp: useFrame_def truthy_def)
  have h: "useFrame upd (a\<lparr>controlMode := HAND\<rparr>) (Some gesture) elapsed delta s
           = disable_controls (hand_control gesture s)"
    by (simp add: useFrame_def)
  have t: "controlsRef (focus_tracking planet (simulationSpeed a) elapsed c s)
           = Some (c\<lparr>target := lerp (target c)
                 (Vector3 (fst (spec_position planet elapsed (simulationSpeed a))) 0
                          (snd (spec_position planet elapsed (simulationSpeed a)))) 0.1\<rparr>)"
    by (simp add: focus_tracking_def focus_orbit_def spec_position_def Let_def)
  have p: "position (camera (focus_tracking planet (simulationSpeed a) elapsed c s))
           = lerp (position (camera s))
               (Vector3 (fst (spec_position planet elapsed (simulationSpeed a)) + radius planet * 5)
                        (radius planet * 3)
                        (snd (spec_position planet elapsed (simulationSpeed a)) + radius planet * 5))
               0.05"
    by (simp add: focus_tracking_def focus_orbit_def spec_position_def Let_def)
  from d h t p show ?thesis by simp
qed

theorem focus_tracking_dispatch_witness:
  "(controlMode (AppState_init\<lparr>focusedBody := Some ''earth''\<rparr>) = MOUSE
      \<or> controlMode (AppState_init\<lparr>focusedBody := Some ''earth''\<rparr>) = KEYBOARD)
   \<and> find_planet ''earth'' = Some earth
   \<and> controlsRef CameraController_init = Some OrbitControls_init
   \<and> controlsRef (useFrame no_update (AppState_init\<lparr>focusedBody := Some ''earth''\<rparr>) (Some NONE) 0 1
        CameraController_init)
       = Some \<lparr>target = Vector3 7.5 0 0, enabled = True\<rparr>
   \<and> position (camera (useFrame no_update (AppState_init\<lparr>focusedBody := Some ''earth''\<rparr>) (Some NONE) 0 1
        CameraController_init))
       = Vector3 4.35 142.86 285.6"
proof -
  have m: "controlMode (AppState_init\<lparr>focusedBody := Some ''earth''\<rparr>) = MOUSE
      \<or> controlMode (AppState_init\<lparr>focusedBody := Some ''earth''\<rparr>) = KEYBOARD"
    by (simp add: AppState_init_def)
  have f: "focusedBody (AppState_init\<lparr>focusedBody := Some ''earth''\<rparr>) = Some ''earth''"
    by simp
  have n: "''earth'' \<noteq> []" by simp
  from focus_tracking_dispatch [OF m f n find_planet_earth mount_controls, of no_update "Some NONE" 0 1]
    m find_planet_earth mount_controls mount_camera
  show ?thesis
    by (simp add: update_def no_update_def spec_position_def earth_def lerp_def
          OrbitControls_init_def OrbitControls_props_def AppState_init_def)
qed

text \<open>
  In Hand mode with the Earth focused (at elapsed time 0 it is at (75, 0, 0)) the frame
  leaves target and camera where they were; tracking would have moved both.
\<close>

theorem focus_tracking_dispatch_counterexample:
  "controlsRef (useFrame no_update
        \<lparr>controlMode = HAND, focusedBody = Some ''earth'', simulationSpeed = 1\<rparr>
        (Some NONE) 0 1 CameraController_init)
     = Some \<lparr>target = Vector3 0 0 0, enabled = False\<rparr>
   \<and> position (camera (useFrame no_update
        \<lparr>controlMode = HAND, focusedBody = Some ''earth'', simulationSpeed = 1\<rparr>
        (Some NONE) 0 1 CameraController_init))
     = Vector3 0 150 300
   \<and> controlsRef (focus_tracking earth 1 0 OrbitControls_init CameraController_init)
     = Some \<lparr>target = Vector3 7.5 0 0, enabled = True\<rparr>
   \<and> position (camera (focus_tracking earth 1 0 OrbitControls_init CameraController_init))
     = Vector3 4.35 142.86 285.6"
  by (simp add: useFrame_def disable_controls_def mount_controls mount_camera
      OrbitControls_init_def OrbitControls_props_def AppState_init_def
      focus_tracking_def focus_orbit_def earth_def lerp_def Let_def)

text \<open>
  C5 (amended). In Autopilot mode every frame advances the internal orbit angle by
  deltaTime * 0.05, whatever the simulation speed and the focus are, moves the camera
  position with factor 0.05 towards (sin(angle) * 350, 100, cos(angle) * 350), turns
  the camera to the origin, and then lets the controls update.
\<close>

theorem autopilot_orbit:
  assumes "controlMode a = AUTO"
  shows "useFrame upd a g elapsed delta s = update upd (auto_orbit delta s)
       \<and> autoOrbitRef (auto_orbit delta s) = autoOrbitRef s + delta * 0.05
       \<and> camera (auto_orbit delta s)
           = \<lparr>position = lerp (position (camera s))
                 (Vector3 (sin (autoOrbitRef s + delta * 0.05) * 350) 100
                          (cos (autoOrbitRef s + delta * 0.05) * 350)) 0.05,
              lookedAt = Vector3 0 0 0\<rparr>"
  using assms by (simp add: useFrame_def auto_orbit_def Let_def)

theorem autopilot_orbit_witness:
  "controlMode (AppState_init\<lparr>controlMode := AUTO, simulationSpeed := 2\<rparr>) = AUTO
   \<and> autoOrbitRef (useFrame no_update (AppState_init\<lparr>controlMode := AUTO, simulationSpeed := 2\<rparr>)
        (Some NONE) 0 0 CameraController_init) = 0
   \<and> camera (useFrame no_update (AppState_init\<lparr>controlMode := AUTO, simulationSpeed := 2\<rparr>)
        (Some NONE) 0 0 CameraController_init)
       = \<lparr>position = Vector3 0 147.5 302.5, lookedAt = Vector3 0 0 0\<rparr>"
proof -
  have m: "controlMode (AppState_init\<lparr>controlMode := AUTO, simulationSpeed := 2\<rparr>) = AUTO"
    by simp
  have z: "autoOrbitRef CameraController_init = 0"
    by (simp add: CameraController_init_def focusEffect_def AppState_init_def truthy_def)
  from autopilot_orbit [OF m, of no_update "Some NONE" 0 0 CameraController_init] m z
    mount_controls mount_camera
  show ?thesis
    by (simp add: update_def no_update_def lerp_def auto_orbit_def Let_def)
qed

text \<open>
  With the simulation speed 2 and one second since the last frame the angle advances by
  0.05, not by 0.1.
\<close>

theorem autopilot_orbit_counterexample:
  "autoOrbitRef (useFrame no_update \<lparr>controlMode = AUTO, focusedBody = None, simulationSpeed = 2\<rparr>
        (Some NONE) 0 1 CameraController_init) = 0.05
   \<and> autoOrbitRef (useFrame no_update \<lparr>controlMode = AUTO, focusedBody = None, simulationSpeed = 2\<rparr>
        (Some NONE) 0 1 CameraController_init) \<noteq> 0 + 1 * 0.05 * 2"
proof -
  have z: "autoOrbitRef CameraController_init = 0"
    by (simp add: CameraController_init_def focusEffect_def AppState_init_def truthy_def)
  have u: "autoOrbitRef (update no_update s) = autoOrbitRef s" for s
    by (simp add: update_def split: option.splits prod.splits)
  show ?thesis by (simp add: useFrame_def u auto_orbit_def Let_def z)
qed

lemma mode_setFocusedBody [simp]:
  "controlMode (appState (setFocusedBody f app)) = controlMode (appState app)"
  by (simp add: setFocusedBody_def Let_def)

lemma mode_handleGesture [simp]:
  "controlMode (appState (handleGesture f g app)) = controlMode (appState app)"
  by (simp add: handleGesture_def Let_def)

lemma mode_predictWebcam_call [simp]:
  "controlMode (appState (predictWebcam_call f now lm app)) = controlMode (appState app)"
  by (simp add: predictWebcam_call_def Let_def split: prod.splits sum.splits option.splits)

lemma mode_run_listeners [simp]:
  "controlMode (appState (run_listeners calls app)) = controlMode (appState app)"
  by (induction calls app rule: run_listeners.induct) simp_all




lemma scene_handleGesture:
  "scene (handleGesture seenFocus gesture app)
     = (if gesture = EXIT_FOCUS \<and> truthy seenFocus \<and> focusedBody (appState app) \<noteq> None
        then focusEffect ((appState app)\<lparr>focusedBody := None\<rparr>) (scene app)
        else scene app)"
  by (simp add: handleGesture_def setFocusedBody_def Let_def)

lemma gestureRef_setControlMode [simp]: "gestureRef (setControlMode m app) = gestureRef app"
  by (simp add: setControlMode_def Let_def)

lemma mode_setControlMode [simp]: "controlMode (appState (setControlMode m app)) = m"
  by (simp add: setControlMode_def Let_def)


lemma hand_visit_facts:
  "controlMode (appState (app_run hand_visit App_init)) = HAND"
  "gestureRef (app_run hand_visit App_init) = ZOOM 0.6"
  "handState (scene (app_run hand_visit App_init)) = HandState_init"
  "webcam (app_run hand_visit App_init)
     = \<lparr>srcObject = True, listeners = 1, pending = [2], requestRef = 2, nextId = 3,
        requested = 0\<rparr>"
  "isLoaded (app_run hand_visit App_init)"
  "focusedBody (appState (app_run hand_visit App_init)) = None"
  by (simp_all add: hand_visit_def App_init_def setControlMode_def Let_def handEffect_def
      stopWebcam_def startWebcam_def requestAnimationFrame_def handleGesture_def
      predictWebcam_call_def predictWebcam_def two_hand_step hand_at_nonempty
      wrist_distance_hand_at ClassifierState_init_def AppState_init_def
      CameraController_init_def)

lemma app_run_append: "app_run (es @ fs) app = app_run fs (app_run es app)"
  by (induction es arbitrary: app) simp_all

lemma hand_app_facts:
  "controlMode (appState hand_app) = MOUSE"
  "gestureRef hand_app = ZOOM 0.6"
  "handState (scene hand_app) = HandState_init"
  "webcam hand_app
     = \<lparr>srcObject = False, listeners = 1, pending = [], requestRef = 2, nextId = 3,
        requested = 0\<rparr>"
  "isLoaded hand_app"
  "focusedBody (appState hand_app) = None"
  by (simp_all add: hand_app_def app_run_append hand_visit_facts setControlMode_def Let_def
      handEffect_def stopWebcam_def)



lemma hand_visit_classifier:
  "classifier (app_run hand_visit App_init)
     = \<lparr>lastHandPos = None, lastPinchDist = Some 0.13, gestureHoldStart = 0\<rparr>"
  by (simp add: hand_visit_def App_init_def setControlMode_def Let_def handEffect_def
      stopWebcam_def startWebcam_def requestAnimationFrame_def handleGesture_def
      predictWebcam_call_def predictWebcam_def two_hand_step hand_at_nonempty
      wrist_distance_hand_at ClassifierState_init_def AppState_init_def
      CameraController_init_def)

lemma hand_app_classifier:
  "classifier hand_app = \<lparr>lastHandPos = None, lastPinchDist = Some 0.13, gestureHoldStart = 0\<rparr>"
  by (simp add: hand_app_def app_run_append hand_visit_classifier setControlMode_def Let_def)

lemma hand_app_appState: "appState hand_app = AppState_init"
  by (simp add: hand_app_def app_run_append hand_visit_def App_init_def setControlMode_def Let_def
      handEffect_def stopWebcam_def startWebcam_def requestAnimationFrame_def handleGesture_def
      predictWebcam_call_def predictWebcam_def two_hand_step hand_at_nonempty
      wrist_distance_hand_at ClassifierState_init_def AppState_init_def)

lemma second_visit_facts:
  "appState (app_run second_visit hand_app) = AppState_init"
  "webcam (app_run second_visit hand_app)
     = \<lparr>srcObject = False, listeners = 2, pending = [3], requestRef = 4, nextId = 5,
        requested = 0\<rparr>"
  "isLoaded (app_run second_visit hand_app)"
  "classifier (app_run second_visit hand_app)
     = \<lparr>lastHandPos = None, lastPinchDist = Some 0.13, gestureHoldStart = 0\<rparr>"
  by (simp_all add: second_visit_def hand_app_facts hand_app_classifier hand_app_appState
      setControlMode_def Let_def handEffect_def
      stopWebcam_def startWebcam_def requestAnimationFrame_def
      predictWebcam_call_def predictWebcam_def two_hand_step hand_at_nonempty
      wrist_distance_hand_at AppState_init_def)


lemma mounted_update [simp]: "mounted (update upd s) = mounted s"
  by (simp add: mounted_def update_def split: option.splits prod.splits)

lemma mounted_hand_control [simp]: "mounted (hand_control g s) = mounted s"
  by (cases g) (simp_all add: mounted_def Let_def)

lemma mounted_disable_controls [simp]: "mounted (disable_controls s) = mounted s"
  by (simp add: mounted_def disable_controls_def split: option.splits)

lemma mounted_auto_orbit [simp]: "mounted (auto_orbit delta s) = mounted s"
  by (simp add: mounted_def auto_orbit_def Let_def)

lemma mounted_focus_tracking [simp]: "mounted (focus_tracking p v e c s)"
  by (simp add: mounted_def focus_tracking_def Let_def split: prod.splits)

lemma mounted_useFrame [simp]: "mounted (useFrame upd a g elapsed delta s) = mounted s"
  by (simp add: useFrame_def split: option.splits) (simp add: mounted_def)

lemma mounted_focusEffect [simp]: "mounted (focusEffect a s) = mounted s"
  by (simp add: mounted_def focusEffect_def)

lemma mounted_apply_enabled_prop [simp]: "mounted (apply_enabled_prop old new s) = mounted s"
  by (simp add: mounted_def apply_enabled_prop_def split: option.splits)

lemma mounted_predictWebcam_call [simp]:
  "mounted (scene (predictWebcam_call f now lm app)) = mounted (scene app)"
  by (simp add: predictWebcam_call_def Let_def scene_handleGesture
        split: prod.splits sum.splits option.splits)

lemma mounted_run_listeners [simp]:
  "mounted (scene (run_listeners calls app)) = mounted (scene app)"
  by (induction calls app rule: run_listeners.induct) simp_all

lemma mounted_app_step [simp]: "mounted (scene (app_step e app)) = mounted (scene app)"
  by (cases e)
    (simp_all add: setControlMode_def setFocusedBody_def setSimulationSpeed_def Let_def)

lemma mounted_app_run [simp]: "mounted (scene (app_run es app)) = mounted (scene app)"
  by (induction es arbitrary: app) simp_all

lemma mounted_App_init: "mounted (scene App_init)"
  by (simp add: App_init_def mounted_def mount_controls)

lemma mounted_hand_app: "mounted (scene hand_app)"
  by (simp add: hand_app_def mounted_App_init)


text \<open>
  A second visit of Hand mode: the element now carries two listeners, the new stream
  starts a call of the sample loop for each, and leaving Hand mode cancels only the
  request made last. The call of the older listener is still pending in Pointer mode.
\<close>

lemma sample_loop_survives_second_visit:
  "controlMode (appState (app_run second_visit hand_app)) = MOUSE
   \<and> srcObject (webcam (app_run second_visit hand_app)) = False
   \<and> listeners (webcam (app_run second_visit hand_app)) = 2
   \<and> pending (webcam (app_run second_visit hand_app)) = [3]"
  by (simp add: second_visit_facts AppState_init_def)

text \<open>
  A camera granted only after Hand mode was left starts the sample loop in Pointer mode.
  Its handler was made when Hand mode was entered with the Earth focused; the first
  sample shows an open palm, EXIT_FOCUS is emitted at once (the hold-start is still 0),
  the focus is cleared and the transition to the overview starts, all in Pointer mode.
\<close>

lemma late_grant_facts:
  "appState (app_run late_grant App_init) = AppState_init\<lparr>focusedBody := Some ''earth''\<rparr>"
  "webcam (app_run late_grant App_init)
     = \<lparr>srcObject = True, listeners = 1, pending = [], requestRef = 0, nextId = 1,
        requested = 0\<rparr>"
  "isLoaded (app_run late_grant App_init)"
  "classifier (app_run late_grant App_init) = ClassifierState_init"
  "tweens (scene (app_run late_grant App_init)) = [reset_position_tween, reset_target_tween]"
  by (simp_all add: late_grant_def App_init_def setControlMode_def setFocusedBody_def Let_def
      handEffect_def stopWebcam_def startWebcam_def AppState_init_def focusEffect_def
      truthy_def apply_enabled_prop_def OrbitControls_props_def mount_tweens
      split: option.splits)

lemma exit_focus_outside_hand_mode:
  "controlMode (appState (app_run late_grant App_init)) = MOUSE
   \<and> focusedBody (appState (app_run late_grant App_init)) = Some ''earth''
   \<and> controlMode (appState (app_run
         (late_grant @ [LoadedData [(Some ''earth'', 5000, [open_palm])]]) App_init)) = MOUSE
   \<and> gestureRef (app_run
         (late_grant @ [LoadedData [(Some ''earth'', 5000, [open_palm])]]) App_init) = EXIT_FOCUS
   \<and> focusedBody (appState (app_run
         (late_grant @ [LoadedData [(Some ''earth'', 5000, [open_palm])]]) App_init)) = None
   \<and> tweens (scene (app_run
         (late_grant @ [LoadedData [(Some ''earth'', 5000, [open_palm])]]) App_init))
       = [reset_position_tween, reset_target_tween, reset_position_tween, reset_target_tween]"
  using mounted_App_init mounted_app_run [of late_grant App_init]
  by (auto simp: mounted_def app_run_append late_grant_facts setFocusedBody_def Let_def
      focusEffect_def truthy_def predictWebcam_call_def predictWebcam_def processGestures_def
      processGestures_single_def open_palm_def example_hand_def handleGesture_def
      AppState_init_def requestAnimationFrame_def ClassifierState_init_def)

text \<open>
  C9 (amended). The pointer control is configured with damping 0.05 and the distance
  range [10, 650]; its enabled prop is true exactly when the control mode is Pointer,
  whether a focus is set or not. A frame in Hand mode disables the mounted control, and a
  frame that tracks a focused body in Pointer or Keyboard mode leaves its enabled flag
  as it was.
\<close>

theorem pointer_control_enabled:
  "enabled_prop (OrbitControls_props a) = (controlMode a = MOUSE)
   \<and> enabled_prop (OrbitControls_props (a\<lparr>focusedBody := f\<rparr>)) = enabled_prop (OrbitControls_props a)
   \<and> enableDamping (OrbitControls_props a) \<and> dampingFactor (OrbitControls_props a) = 0.05
   \<and> minDistance (OrbitControls_props a) = 10 \<and> maxDistance (OrbitControls_props a) = 650
   \<and> (controlsRef s = Some c \<longrightarrow>
        map_option enabled
          (controlsRef (useFrame upd (a\<lparr>controlMode := HAND\<rparr>) (Some gesture) elapsed delta s))
          = Some False)
   \<and> ((controlMode a = MOUSE \<or> controlMode a = KEYBOARD) \<and> truthy (focusedBody a)
        \<and> controlsRef s = Some c \<longrightarrow>
        map_option enabled (controlsRef (useFrame upd a g elapsed delta s)) = Some (enabled c))"
proof -
  have hand: "map_option enabled
          (controlsRef (useFrame upd (a\<lparr>controlMode := HAND\<rparr>) (Some gesture) elapsed delta s))
          = Some False" if "controlsRef s = Some c"
  proof -
    have "controlsRef (hand_control gesture s) = Some c"
      using that by (cases gesture) (simp_all add: Let_def)
    then show ?thesis by (simp add: useFrame_def disable_controls_def)
  qed
  have foc: "map_option enabled (controlsRef (useFrame upd a g elapsed delta s)) = Some (enabled c)"
    if "controlMode a = MOUSE \<or> controlMode a = KEYBOARD" "truthy (focusedBody a)"
      "controlsRef s = Some c"
    using that
    by (auto simp: useFrame_def update_def focus_tracking_def Let_def
          split: option.splits prod.splits)
  from hand foc show ?thesis
    by (simp add: OrbitControls_props_def)
qed

theorem pointer_control_enabled_witness:
  "controlsRef (scene focused_app) = Some OrbitControls_init
   \<and> (controlMode (appState focused_app) = MOUSE \<or> controlMode (appState focused_app) = KEYBOARD)
   \<and> truthy (focusedBody (appState focused_app))
   \<and> map_option enabled (controlsRef (useFrame no_update
         ((appState focused_app)\<lparr>controlMode := HAND\<rparr>) (Some NONE) 0 0 (scene focused_app)))
       = Some False
   \<and> map_option enabled (controlsRef (useFrame no_update
         (appState focused_app) (Some NONE) 0 0 (scene focused_app)))
       = Some (enabled OrbitControls_init)"
proof -
  have c: "controlsRef (scene focused_app) = Some OrbitControls_init"
    by (simp add: focused_app_facts mount_controls)
  have m: "controlMode (appState focused_app) = MOUSE \<or> controlMode (appState focused_app) = KEYBOARD"
    by (simp add: focused_app_facts AppState_init_def)
  have f: "truthy (focusedBody (appState focused_app))"
    by (simp add: focused_app_facts truthy_def)
  note th = pointer_control_enabled [of "appState focused_app" "Some ''earth''"
      "scene focused_app" OrbitControls_init no_update NONE 0 0 "Some NONE"]
  from th c have h: "map_option enabled (controlsRef (useFrame no_update
         ((appState focused_app)\<lparr>controlMode := HAND\<rparr>) (Some NONE) 0 0 (scene focused_app)))
       = Some False"
    by blast
  from th c m f have t: "map_option enabled (controlsRef (useFrame no_update
         (appState focused_app) (Some NONE) 0 0 (scene focused_app)))
       = Some (enabled OrbitControls_init)"
    by blast
  from c m f h t show ?thesis by (intro conjI)
qed

text \<open>
  In Pointer mode with the Earth focused, the prop is true and the control is still
  enabled after a frame.
\<close>

theorem pointer_control_enabled_counterexample:
  "controlMode (appState focused_app) = MOUSE
   \<and> truthy (focusedBody (appState focused_app))
   \<and> enabled_prop (OrbitControls_props (appState focused_app))
   \<and> map_option enabled (controlsRef (scene (app_run [Frame no_update 0 0] focused_app)))
       = Some True"
  by (simp add: focused_app_facts AppState_init_def truthy_def OrbitControls_props_def
      useFrame_def find_planet_earth mount_controls update_def no_update_def
      focus_tracking_def focus_orbit_def Let_def OrbitControls_init_def)

text \<open>
  The last branch of the frame callback enables the mounted control in every mode that
  reaches it: in Keyboard mode with no focus the control is enabled after a frame,
  although its prop is false.
\<close>

lemma keyboard_frame_enables_control:
  "\<not> enabled_prop (OrbitControls_props
          \<lparr>controlMode = KEYBOARD, focusedBody = None, simulationSpeed = 1\<rparr>)
   \<and> map_option enabled (controlsRef (useFrame no_update
          \<lparr>controlMode = KEYBOARD, focusedBody = None, simulationSpeed = 1\<rparr> (Some NONE) 0 0
          (CameraController_init\<lparr>controlsRef := Some \<lparr>target = Vector3 0 0 0, enabled = False\<rparr>\<rparr>)))
     = Some True"
  by (simp add: OrbitControls_props_def useFrame_def truthy_def update_def no_update_def)

end
